theory Spec2Isabelle
  imports Main "HOL-Library.Sublist"
begin

section \<open>The security group facts module of azure\_rm\_securitygroup\_facts.py\<close>

text \<open>
  The module reads two arguments, \<open>name\<close> and \<open>resource_group\<close>, asks the Azure network
  client for one security group (\<open>get\<close>) or for all of a resource group (\<open>list\<close>),
  serializes what comes back and returns the dictionary \<open>self.results\<close>.

  Everything the class inherits or imports (the network client, \<open>serialize_obj\<close>,
  \<open>check_mode\<close>, \<open>fail\<close>) lives in Ansible and the Azure SDK, outside the file; the
  client and the serializer are parameters of the model. \<open>self.log\<close> only writes to a
  log and is left out.
\<close>

subsection \<open>Python values and exceptions\<close>

text \<open>
  An argument value is a \<open>str\<close> or \<open>None\<close>. An exception is known by the class the
  two \<open>except\<close> clauses of the file test for, and by its text \<open>str(exc)\<close>:
  \<open>CloudError\<close> (a subclass of \<open>Exception\<close>), any other subclass of \<open>Exception\<close>, and
  a \<open>BaseException\<close> outside \<open>Exception\<close> (\<open>KeyboardInterrupt\<close>, \<open>SystemExit\<close>).
\<close>

type_synonym pyarg = "string option"

datatype exc_class = CloudError | OtherException | NonException

datatype py_exc = PyExc exc_class string

fun str :: "py_exc \<Rightarrow> string" where
  "str (PyExc k s) = s"

text \<open>\<open>except CloudError\<close> and \<open>except Exception\<close> as tests on the class.\<close>

fun is_CloudError :: "py_exc \<Rightarrow> bool" where
  "is_CloudError (PyExc k s) = (k = CloudError)"

fun is_Exception :: "py_exc \<Rightarrow> bool" where
  "is_Exception (PyExc k s) = (k = CloudError \<or> k = OtherException)"

text \<open>
  How a call of the module ends when it does not return: an exception that no clause
  caught, the \<open>KeyError\<close> of \<open>kwargs[key]\<close>, or \<open>self.fail(msg)\<close>.
\<close>

datatype failure = Raised py_exc | KeyError string | Failed string

text \<open>
  Modelled from the spec: \<open>AzureRMModuleBase.fail\<close> is defined in Ansible's
  \<open>azure_rm_common\<close>, not in this file. The spec calls the listing failure a terminal
  failure with a human-readable message and no results, so \<open>fail\<close> ends the call with
  its message and never returns.
\<close>

definition fail :: "string \<Rightarrow> failure + 'a" where
  "fail msg = Inl (Failed msg)"

subsection \<open>The collaborators\<close>

text \<open>
  \<open>network_client.network_security_groups.get\<close> and \<open>.list\<close> return or raise;
  \<open>get\<close> may return \<open>None\<close>. \<open>truth\<close> is Python's truth value of a returned object
  (\<open>if item:\<close>), \<open>serialize_obj\<close> the inherited serializer, \<open>check_mode\<close> the inherited
  attribute. The response of \<open>list\<close> is the finite sequence of its items, and the
  serializer returns a value for every object, as the interfaces of the two
  collaborators are described. The calls made to the client are recorded, in order.
\<close>

record ('raw, 'norm) collaborators =
  nsg_get :: "pyarg \<Rightarrow> pyarg \<Rightarrow> py_exc + 'raw option"
  nsg_list :: "pyarg \<Rightarrow> py_exc + 'raw list"
  truth :: "'raw \<Rightarrow> bool"
  serialize_obj :: "'raw \<Rightarrow> string \<Rightarrow> 'norm"
  check_mode :: bool

datatype call = Get pyarg pyarg | List pyarg

definition AZURE_OBJECT_CLASS :: string where
  "AZURE_OBJECT_CLASS = ''NetworkSecurityGroup''"

subsection \<open>The module object\<close>

text \<open>\<open>self.results\<close> is the dictionary with the keys \<open>changed\<close>, \<open>check_mode\<close>, \<open>results\<close>.\<close>

record 'norm envelope =
  changed :: bool
  env_check_mode :: bool
  results :: "'norm list"

record 'norm module =
  self_results :: "'norm envelope"
  name :: pyarg
  resource_group :: pyarg

definition module_arg_spec :: "string list" where
  "module_arg_spec = [''name'', ''resource_group'']"

text \<open>\<open>__init__\<close>\<close>

definition init :: "('raw, 'norm) collaborators \<Rightarrow> 'norm module" where
  "init c =
     \<lparr> self_results = \<lparr> changed = False, env_check_mode = check_mode c, results = [] \<rparr>,
       name = None,
       resource_group = None \<rparr>"

text \<open>
  \<open>get_item\<close>: \<open>item\<close> starts as \<open>None\<close> and \<open>result\<close> as \<open>[]\<close>; a \<open>CloudError\<close> of
  \<open>get\<close> is passed over, any other exception leaves the function. \<open>if item:\<close> is
  false for \<open>None\<close> and for an object whose truth value is false.
\<close>

definition get_item ::
  "('raw, 'norm) collaborators \<Rightarrow> 'norm module \<Rightarrow> call list \<times> (failure + 'norm list)" where
  "get_item c self =
     (let calls = [Get (resource_group self) (name self)] in
      case nsg_get c (resource_group self) (name self) of
        Inl exc \<Rightarrow>
          if is_CloudError exc then (calls, Inr [])
          else (calls, Inl (Raised exc))
      | Inr None \<Rightarrow> (calls, Inr [])
      | Inr (Some item) \<Rightarrow>
          if truth c item then (calls, Inr [serialize_obj c item AZURE_OBJECT_CLASS])
          else (calls, Inr []))"

text \<open>The loop of \<open>list_items\<close>: \<open>results.append(...)\<close> for each item of the response.\<close>

fun append_items ::
  "('raw, 'norm) collaborators \<Rightarrow> 'raw list \<Rightarrow> 'norm list \<Rightarrow> 'norm list" where
  "append_items c [] res = res"
| "append_items c (item # response) res =
     append_items c response (res @ [serialize_obj c item AZURE_OBJECT_CLASS])"

definition list_items ::
  "('raw, 'norm) collaborators \<Rightarrow> 'norm module \<Rightarrow> call list \<times> (failure + 'norm list)" where
  "list_items c self =
     (let calls = [List (resource_group self)] in
      case nsg_list c (resource_group self) of
        Inl exc \<Rightarrow>
          if is_Exception exc then (calls, fail (''Error listing all items - '' @ str exc))
          else (calls, Inl (Raised exc))
      | Inr response \<Rightarrow> (calls, Inr (append_items c response [])))"

text \<open>
  \<open>setattr(self, key, kwargs[key])\<close> for the keys of \<open>module_arg_spec\<close>; \<open>kwargs\<close> is a
  dictionary from argument names to values.
\<close>

definition setattr :: "'norm module \<Rightarrow> string \<Rightarrow> pyarg \<Rightarrow> 'norm module" where
  "setattr self key v =
     (if key = ''name'' then self\<lparr>name := v\<rparr>
      else if key = ''resource_group'' then self\<lparr>resource_group := v\<rparr>
      else self)"

fun set_args ::
  "'norm module \<Rightarrow> (string \<rightharpoonup> pyarg) \<Rightarrow> string list \<Rightarrow> failure + 'norm module" where
  "set_args self kwargs [] = Inr self"
| "set_args self kwargs (key # keys) =
     (case kwargs key of
        None \<Rightarrow> Inl (KeyError key)
      | Some v \<Rightarrow> set_args (setattr self key v) kwargs keys)"

text \<open>\<open>self.results['results'] = ...\<close>\<close>

definition set_results :: "'norm module \<Rightarrow> 'norm list \<Rightarrow> 'norm module" where
  "set_results self rs = self\<lparr>self_results := (self_results self)\<lparr>results := rs\<rparr>\<rparr>"

text \<open>
  \<open>exec_module_impl\<close> returns \<open>self.results\<close>; the model returns it with the calls made
  and the object as the call leaves it.
\<close>

definition exec_module_impl ::
  "('raw, 'norm) collaborators \<Rightarrow> 'norm module \<Rightarrow> (string \<rightharpoonup> pyarg) \<Rightarrow>
     call list \<times> (failure + 'norm envelope \<times> 'norm module)" where
  "exec_module_impl c self kwargs =
     (case set_args self kwargs module_arg_spec of
        Inl e \<Rightarrow> ([], Inl e)
      | Inr self1 \<Rightarrow>
          (case (if name self1 \<noteq> None then get_item c self1 else list_items c self1) of
             (calls, Inl e) \<Rightarrow> (calls, Inl e)
           | (calls, Inr rs) \<Rightarrow>
               (let self2 = set_results self1 rs in (calls, Inr (self_results self2, self2)))))"

text \<open>
  One invocation, as \<open>main\<close> makes it: a new object, then \<open>exec_module_impl\<close> on the
  arguments. A query as the argument specification admits it has both keys, a
  \<open>resource_group\<close> that is a string and a \<open>name\<close> that is a string or \<open>None\<close>.
\<close>

definition query :: "pyarg \<Rightarrow> string \<Rightarrow> (string \<rightharpoonup> pyarg)" where
  "query n rg = [''name'' \<mapsto> n, ''resource_group'' \<mapsto> Some rg]"

definition run ::
  "('raw, 'norm) collaborators \<Rightarrow> (string \<rightharpoonup> pyarg) \<Rightarrow>
     call list \<times> (failure + 'norm envelope)" where
  "run c kwargs =
     (case exec_module_impl c (init c) kwargs of
        (calls, Inl e) \<Rightarrow> (calls, Inl e)
      | (calls, Inr (env, self')) \<Rightarrow> (calls, Inr env))"

subsection \<open>A stub client\<close>

text \<open>
  A client with canned answers, as a unit test would mock it: \<open>get\<close> answers \<open>g\<close> and
  \<open>list\<close> answers \<open>l\<close> whatever the arguments. A raw resource is its name, the empty
  name stands for an object whose truth value is false, and the serializer pairs the
  class label with the name.
\<close>

definition stub ::
  "py_exc + string option \<Rightarrow> py_exc + string list \<Rightarrow> (string, string \<times> string) collaborators" where
  "stub g l =
     \<lparr> nsg_get = (\<lambda>rg n. g),
       nsg_list = (\<lambda>rg. l),
       truth = (\<lambda>obj. obj \<noteq> []),
       serialize_obj = (\<lambda>obj cls. (cls, obj)),
       check_mode = False \<rparr>"

section \<open>What the functions compute\<close>

lemma set_args_query:
  "set_args self (query n rg) module_arg_spec = Inr (self\<lparr>name := n, resource_group := Some rg\<rparr>)"
  by (simp add: query_def module_arg_spec_def setattr_def)

lemma set_args_self_results:
  "set_args self kwargs keys = Inr self' \<Longrightarrow> self_results self' = self_results self"
  by (induction keys arbitrary: self) (auto simp add: setattr_def split: option.splits if_splits)

text \<open>The loop appends to what it has, one serialized item for each item, in order.\<close>

lemma append_items_map:
  "append_items c response res = res @ map (\<lambda>item. serialize_obj c item AZURE_OBJECT_CLASS) response"
  by (induction response arbitrary: res) simp_all

lemma snd_get_item:
  "snd (get_item c self) =
     (case nsg_get c (resource_group self) (name self) of
        Inl exc \<Rightarrow> if is_CloudError exc then Inr [] else Inl (Raised exc)
      | Inr None \<Rightarrow> Inr []
      | Inr (Some item) \<Rightarrow>
          if truth c item then Inr [serialize_obj c item AZURE_OBJECT_CLASS] else Inr [])"
  by (simp add: get_item_def Let_def split: sum.splits option.splits)

lemma exec_query_Some:
  "exec_module_impl c self (query (Some n) rg) =
     (case get_item c (self\<lparr>name := Some n, resource_group := Some rg\<rparr>) of
        (calls, Inl e) \<Rightarrow> (calls, Inl e)
      | (calls, Inr rs) \<Rightarrow>
          (calls, Inr ((self_results self)\<lparr>results := rs\<rparr>,
                       self\<lparr>name := Some n, resource_group := Some rg,
                            self_results := (self_results self)\<lparr>results := rs\<rparr>\<rparr>)))"
  by (simp add: exec_module_impl_def set_args_query set_results_def split: prod.splits sum.splits)

lemma exec_query_None:
  "exec_module_impl c self (query None rg) =
     (case list_items c (self\<lparr>name := None, resource_group := Some rg\<rparr>) of
        (calls, Inl e) \<Rightarrow> (calls, Inl e)
      | (calls, Inr rs) \<Rightarrow>
          (calls, Inr ((self_results self)\<lparr>results := rs\<rparr>,
                       self\<lparr>name := None, resource_group := Some rg,
                            self_results := (self_results self)\<lparr>results := rs\<rparr>\<rparr>)))"
  by (simp add: exec_module_impl_def set_args_query set_results_def split: prod.splits sum.splits)

lemma exec_changed_untouched:
  assumes "snd (exec_module_impl c self kwargs) = Inr (env, self')"
  shows "changed env = changed (self_results self) \<and> self_results self' = env"
  using assms
  by (auto simp add: exec_module_impl_def set_results_def Let_def
           dest!: set_args_self_results split: sum.splits prod.splits if_splits)

text \<open>An invocation with a name, and one without, written out.\<close>

lemma run_query_Some:
  "run c (query (Some n) rg) =
     ([Get (Some rg) (Some n)],
      case nsg_get c (Some rg) (Some n) of
        Inl exc \<Rightarrow> if is_CloudError exc
                   then Inr \<lparr>changed = False, env_check_mode = check_mode c, results = []\<rparr>
                   else Inl (Raised exc)
      | Inr None \<Rightarrow> Inr \<lparr>changed = False, env_check_mode = check_mode c, results = []\<rparr>
      | Inr (Some item) \<Rightarrow>
          Inr \<lparr>changed = False, env_check_mode = check_mode c,
               results = (if truth c item then [serialize_obj c item AZURE_OBJECT_CLASS] else [])\<rparr>)"
  by (simp add: run_def exec_query_Some get_item_def init_def split: sum.splits option.splits)

lemma run_query_None:
  "run c (query None rg) =
     ([List (Some rg)],
      case nsg_list c (Some rg) of
        Inl exc \<Rightarrow> if is_Exception exc
                   then Inl (Failed (''Error listing all items - '' @ str exc))
                   else Inl (Raised exc)
      | Inr response \<Rightarrow>
          Inr \<lparr>changed = False, env_check_mode = check_mode c,
               results = map (\<lambda>item. serialize_obj c item AZURE_OBJECT_CLASS) response\<rparr>)"
  by (simp add: run_def exec_query_None list_items_def init_def fail_def append_items_map
           split: sum.splits)

text \<open>
  What an invocation returns depends on the client only through the answer to the one
  call it makes, and on the object only through \<open>changed\<close> and \<open>check_mode\<close>: the
  name, the resource group and the results an earlier call left behind are overwritten.
\<close>

lemma run_depends_on_answers:
  assumes a: "case n of Some m \<Rightarrow> nsg_get c (Some rg) (Some m) = nsg_get d (Some rg) (Some m)
                      | None \<Rightarrow> nsg_list c (Some rg) = nsg_list d (Some rg)"
    and t: "truth c = truth d" and s: "serialize_obj c = serialize_obj d"
    and m: "check_mode c = check_mode d"
  shows "run c (query n rg) = run d (query n rg)"
proof (cases n)
  case None
  with a have "nsg_list c (Some rg) = nsg_list d (Some rg)" by simp
  with None show ?thesis by (simp add: run_query_None s m split: sum.splits)
next
  case (Some b)
  with a have "nsg_get c (Some rg) (Some b) = nsg_get d (Some rg) (Some b)" by simp
  with Some show ?thesis by (simp add: run_query_Some t s m split: sum.splits option.splits)
qed

lemma exec_on_used_object:
  assumes "changed (self_results self) = False"
    and "env_check_mode (self_results self) = check_mode c"
  shows "fst (exec_module_impl c self (query n rg)) = fst (run c (query n rg)) \<and>
         map_sum id fst (snd (exec_module_impl c self (query n rg))) = snd (run c (query n rg))"
proof -
  have e: "(self_results self)\<lparr>results := rs\<rparr>
             = \<lparr>changed = False, env_check_mode = check_mode c, results = rs\<rparr>" for rs
    using assms by (cases "self_results self") simp
  show ?thesis
  proof (cases n)
    case None
    then show ?thesis
      by (simp add: run_query_None exec_query_None list_items_def fail_def append_items_map e
               split: sum.splits)
  next
    case (Some m)
    then show ?thesis
      by (simp add: run_query_Some exec_query_Some get_item_def e
               split: sum.splits option.splits)
  qed
qed

section \<open>The claims\<close>

text \<open>
  C1. A query whose \<open>name\<close> is not \<open>None\<close> makes exactly one call of the client, the
  \<open>get\<close> of that resource group and of that very name; a query without \<open>name\<close> makes
  exactly one call, the \<open>list\<close> of the resource group. The name is passed as it is:
  nothing is matched in part and nothing is expanded.
\<close>

theorem lookup_mode_by_name:
  "fst (run c (query (Some n) rg)) = [Get (Some rg) (Some n)] \<and>
   fst (run c (query None rg)) = [List (Some rg)]"
  by (simp add: run_query_Some run_query_None)

text \<open>
  C2. Without \<open>name\<close>, when \<open>list\<close> raises an error (an instance of \<open>Exception\<close>,
  which every error class of Python and of the SDK is), the invocation ends in \<open>fail\<close>
  with a message that contains the text of the error, and no result dictionary is
  returned.
\<close>

theorem listing_error_is_fatal:
  assumes "nsg_list c (Some rg) = Inl exc" and "is_Exception exc"
  shows "snd (run c (query None rg)) = Inl (Failed (''Error listing all items - '' @ str exc)) \<and>
         sublist (str exc) (''Error listing all items - '' @ str exc)"
proof
  show "snd (run c (query None rg)) = Inl (Failed (''Error listing all items - '' @ str exc))"
    using assms by (simp add: run_query_None)
  show "sublist (str exc) (''Error listing all items - '' @ str exc)"
    by (rule sublist_append_leftI)
qed

theorem listing_error_is_fatal_witness:
  "nsg_list (stub (Inr None) (Inl (PyExc OtherException ''boom''))) (Some ''Testing'')
     = Inl (PyExc OtherException ''boom'') \<and>
   is_Exception (PyExc OtherException ''boom'') \<and>
   snd (run (stub (Inr None) (Inl (PyExc OtherException ''boom''))) (query None ''Testing''))
     = Inl (Failed ''Error listing all items - boom'')"
  using listing_error_is_fatal
    [of "stub (Inr None) (Inl (PyExc OtherException ''boom''))" "''Testing''"
        "PyExc OtherException ''boom''"]
  by (simp add: stub_def)

text \<open>
  C3. With a \<open>name\<close> that does not exist, \<open>get\<close> raises a \<open>CloudError\<close>; \<open>get_item\<close>
  then returns the empty list and the invocation returns its dictionary with
  \<open>results = []\<close>: the absence is not an error.
\<close>

theorem not_found_is_empty:
  assumes "nsg_get c (Some rg) (Some n) = Inl (PyExc CloudError msg)"
  shows "snd (get_item c (self\<lparr>name := Some n, resource_group := Some rg\<rparr>)) = Inr [] \<and>
         snd (run c (query (Some n) rg))
           = Inr \<lparr>changed = False, env_check_mode = check_mode c, results = []\<rparr>"
  using assms by (simp add: run_query_Some snd_get_item)

theorem not_found_is_empty_witness:
  "nsg_get (stub (Inl (PyExc CloudError ''ResourceNotFound'')) (Inr [])) (Some ''Testing'')
       (Some ''secgroup009'')
     = Inl (PyExc CloudError ''ResourceNotFound'') \<and>
   snd (run (stub (Inl (PyExc CloudError ''ResourceNotFound'')) (Inr []))
          (query (Some ''secgroup009'') ''Testing''))
     = Inr \<lparr>changed = False, env_check_mode = False, results = []\<rparr>"
  using not_found_is_empty
    [of "stub (Inl (PyExc CloudError ''ResourceNotFound'')) (Inr [])" "''Testing''"
        "''secgroup009''" "''ResourceNotFound''"]
  by (simp add: stub_def)

text \<open>
  C4, as the claim states it: every error of \<open>get\<close> is passed over. It is not so: the
  clause is \<open>except CloudError\<close>, and an exception of another class leaves \<open>get_item\<close>
  and \<open>exec_module_impl\<close>, so the invocation returns no dictionary.
\<close>

theorem other_get_error_aborts:
  "snd (run (stub (Inl (PyExc OtherException ''connection reset'')) (Inr []))
          (query (Some ''secgroup001'') ''Testing''))
     = Inl (Raised (PyExc OtherException ''connection reset''))"
  by (simp add: run_query_Some stub_def)

text \<open>
  C4, amended. Every \<open>CloudError\<close> of \<open>get\<close>, whatever its text and cause (not only
  the one of a missing resource), is passed over in the same way and the invocation
  returns \<open>results = []\<close>; an exception of \<open>get\<close> that is not a \<open>CloudError\<close> is raised
  to the caller.
\<close>

theorem get_error_policy:
  assumes "nsg_get c (Some rg) (Some n) = Inl exc"
  shows "snd (run c (query (Some n) rg))
           = (if is_CloudError exc
              then Inr \<lparr>changed = False, env_check_mode = check_mode c, results = []\<rparr>
              else Inl (Raised exc))"
  using assms by (simp add: run_query_Some)

theorem get_error_policy_witness:
  "nsg_get (stub (Inl (PyExc CloudError ''AuthorizationFailed'')) (Inr [])) (Some ''Testing'')
       (Some ''secgroup001'')
     = Inl (PyExc CloudError ''AuthorizationFailed'') \<and>
   snd (run (stub (Inl (PyExc CloudError ''AuthorizationFailed'')) (Inr []))
          (query (Some ''secgroup001'') ''Testing''))
     = Inr \<lparr>changed = False, env_check_mode = False, results = []\<rparr>"
  using get_error_policy
    [of "stub (Inl (PyExc CloudError ''AuthorizationFailed'')) (Inr [])" "''Testing''"
        "''secgroup001''" "PyExc CloudError ''AuthorizationFailed''"]
  by (simp add: stub_def)

text \<open>
  C5. When \<open>list\<close> returns a sequence of resources, \<open>list_items\<close> returns a list of the
  same length whose element at each position is the serialization of the resource at
  that position.
\<close>

theorem listing_length_and_items:
  assumes "nsg_list c (resource_group self) = Inr response"
  shows "\<exists>rs. snd (list_items c self) = Inr rs \<and>
              length rs = length response \<and>
              (\<forall>i<length response. rs ! i = serialize_obj c (response ! i) AZURE_OBJECT_CLASS)"
  using assms by (simp add: list_items_def append_items_map)

theorem listing_length_and_items_witness:
  "nsg_list (stub (Inr None) (Inr [''secgroup001'', ''secgroup002'']))
       (resource_group (init (stub (Inr None) (Inr [''secgroup001'', ''secgroup002'']))
                          \<lparr>resource_group := Some ''Testing''\<rparr>))
     = Inr [''secgroup001'', ''secgroup002''] \<and>
   snd (list_items (stub (Inr None) (Inr [''secgroup001'', ''secgroup002'']))
          (init (stub (Inr None) (Inr [''secgroup001'', ''secgroup002'']))
             \<lparr>resource_group := Some ''Testing''\<rparr>))
     = Inr [(''NetworkSecurityGroup'', ''secgroup001''), (''NetworkSecurityGroup'', ''secgroup002'')]"
  using listing_length_and_items
    [of "stub (Inr None) (Inr [''secgroup001'', ''secgroup002''])"
        "init (stub (Inr None) (Inr [''secgroup001'', ''secgroup002'']))
           \<lparr>resource_group := Some ''Testing''\<rparr>"
        "[''secgroup001'', ''secgroup002'']"]
  by (simp add: stub_def list_items_def AZURE_OBJECT_CLASS_def)

text \<open>
  C6. When \<open>get\<close> returns the resource of the name, the invocation returns exactly one
  result, the serialization of that resource under the class label
  \<open>NetworkSecurityGroup\<close>; whatever \<open>get\<close> does, a list returned by \<open>get_item\<close> has at
  most one element; and under any serializer that records the label it is given, every
  returned element carries \<open>NetworkSecurityGroup\<close>.
\<close>

theorem single_item_result:
  "(nsg_get c (Some rg) (Some n) = Inr (Some item) \<and> truth c item \<longrightarrow>
      snd (run c (query (Some n) rg))
        = Inr \<lparr>changed = False, env_check_mode = check_mode c,
               results = [serialize_obj c item ''NetworkSecurityGroup'']\<rparr>) \<and>
   (\<forall>rs. snd (get_item c self) = Inr rs \<longrightarrow> length rs \<le> 1) \<and>
   (\<forall>rs. (\<forall>obj cls. label (serialize_obj c obj cls) = cls) \<and> snd (get_item c self) = Inr rs \<longrightarrow>
         (\<forall>r \<in> set rs. label r = ''NetworkSecurityGroup''))"
  by (auto simp add: run_query_Some snd_get_item AZURE_OBJECT_CLASS_def
           split: sum.splits option.splits if_splits)

theorem single_item_result_witness:
  "nsg_get (stub (Inr (Some ''secgroup001'')) (Inr [])) (Some ''Testing'') (Some ''secgroup001'')
     = Inr (Some ''secgroup001'') \<and>
   truth (stub (Inr (Some ''secgroup001'')) (Inr [])) ''secgroup001'' \<and>
   snd (run (stub (Inr (Some ''secgroup001'')) (Inr [])) (query (Some ''secgroup001'') ''Testing''))
     = Inr \<lparr>changed = False, env_check_mode = False,
            results = [(''NetworkSecurityGroup'', ''secgroup001'')]\<rparr> \<and>
   (\<forall>obj cls. fst (serialize_obj (stub (Inr (Some ''secgroup001'')) (Inr [])) obj cls) = cls) \<and>
   snd (get_item (stub (Inr (Some ''secgroup001'')) (Inr []))
          (init (stub (Inr (Some ''secgroup001'')) (Inr []))))
     = Inr [(''NetworkSecurityGroup'', ''secgroup001'')] \<and>
   length [(''NetworkSecurityGroup'', ''secgroup001'')] \<le> 1 \<and>
   fst (''NetworkSecurityGroup'', ''secgroup001'') = ''NetworkSecurityGroup''"
  using single_item_result
    [of "stub (Inr (Some ''secgroup001'')) (Inr [])" "''Testing''" "''secgroup001''"
        "''secgroup001''" "init (stub (Inr (Some ''secgroup001'')) (Inr []))" fst]
  by (simp add: stub_def snd_get_item init_def AZURE_OBJECT_CLASS_def)

text \<open>
  C7. Whenever an invocation returns its dictionary, \<open>changed\<close> is false in it:
  \<open>__init__\<close> sets it to false and \<open>exec_module_impl\<close> writes the key \<open>results\<close> only.
\<close>

theorem changed_stays_false:
  assumes "snd (exec_module_impl c (init c) kwargs) = Inr (env, self')"
  shows "\<not> changed env \<and> \<not> changed (self_results self') \<and> snd (run c kwargs) = Inr env"
proof -
  have "changed env = changed (self_results (init c))" and "self_results self' = env"
    using exec_changed_untouched [OF assms] by simp_all
  moreover have "\<not> changed (self_results (init c))"
    by (simp add: init_def)
  moreover have "snd (run c kwargs) = Inr env"
    using assms by (cases "exec_module_impl c (init c) kwargs") (simp add: run_def)
  ultimately show ?thesis by simp
qed

theorem changed_stays_false_witness:
  "snd (exec_module_impl (stub (Inr None) (Inr [''secgroup001'']))
          (init (stub (Inr None) (Inr [''secgroup001'']))) (query None ''Testing''))
     = Inr (\<lparr>changed = False, env_check_mode = False,
              results = [(''NetworkSecurityGroup'', ''secgroup001'')]\<rparr>,
            \<lparr>self_results = \<lparr>changed = False, env_check_mode = False,
                 results = [(''NetworkSecurityGroup'', ''secgroup001'')]\<rparr>,
              name = None, resource_group = Some ''Testing''\<rparr>) \<and>
   \<not> changed \<lparr>changed = False, env_check_mode = False,
              results = [(''NetworkSecurityGroup'', ''secgroup001'')]\<rparr>"
  using changed_stays_false
    [of "stub (Inr None) (Inr [''secgroup001''])" "query None ''Testing''"
        "\<lparr>changed = False, env_check_mode = False,
              results = [(''NetworkSecurityGroup'', ''secgroup001'')]\<rparr>"
        "\<lparr>self_results = \<lparr>changed = False, env_check_mode = False,
                 results = [(''NetworkSecurityGroup'', ''secgroup001'')]\<rparr>,
              name = None, resource_group = Some ''Testing''\<rparr>"]
  by (simp add: exec_query_None list_items_def stub_def init_def AZURE_OBJECT_CLASS_def)

text \<open>
  C8. Two invocations with the same query, against clients that give the same answer
  to the call the query makes (and with the same serializer and \<open>check_mode\<close>), make
  the same calls and return the same dictionary; and so does an invocation on an
  object that an earlier invocation has used, whatever name, resource group and
  results it left there: nothing is carried from one invocation to the next.
\<close>

theorem same_query_same_envelope:
  assumes "case n of Some m \<Rightarrow> nsg_get c (Some rg) (Some m) = nsg_get d (Some rg) (Some m)
                   | None \<Rightarrow> nsg_list c (Some rg) = nsg_list d (Some rg)"
    and "truth c = truth d" and "serialize_obj c = serialize_obj d"
    and "check_mode c = check_mode d"
    and "changed (self_results self) = False"
    and "env_check_mode (self_results self) = check_mode d"
  shows "run d (query n rg) = run c (query n rg) \<and>
         fst (exec_module_impl d self (query n rg)) = fst (run c (query n rg)) \<and>
         map_sum id fst (snd (exec_module_impl d self (query n rg))) = snd (run c (query n rg))"
proof -
  have "run c (query n rg) = run d (query n rg)"
    using assms(1-4) by (rule run_depends_on_answers)
  with exec_on_used_object [OF assms(5,6), of n rg] show ?thesis by simp
qed

theorem same_query_same_envelope_witness:
  "run (stub (Inr (Some ''secgroup001'')) (Inr [''secgroup002'']))
       (query (Some ''secgroup001'') ''Testing'')
     = run (stub (Inr (Some ''secgroup001'')) (Inr []))
         (query (Some ''secgroup001'') ''Testing'') \<and>
   map_sum id fst
     (snd (exec_module_impl (stub (Inr (Some ''secgroup001'')) (Inr [''secgroup002'']))
             \<lparr>self_results = \<lparr>changed = False, env_check_mode = False,
                                results = [(''NetworkSecurityGroup'', ''secgroup007'')]\<rparr>,
               name = Some ''secgroup007'', resource_group = Some ''Other''\<rparr>
             (query (Some ''secgroup001'') ''Testing'')))
     = Inr \<lparr>changed = False, env_check_mode = False,
            results = [(''NetworkSecurityGroup'', ''secgroup001'')]\<rparr>"
  using same_query_same_envelope
    [where c = "stub (Inr (Some ''secgroup001'')) (Inr [])" and rg = "''Testing''"
       and n = "Some ''secgroup001''"
       and d = "stub (Inr (Some ''secgroup001'')) (Inr [''secgroup002''])"
       and self = "\<lparr>self_results = \<lparr>changed = False, env_check_mode = False,
                                results = [(''NetworkSecurityGroup'', ''secgroup007'')]\<rparr>,
               name = Some ''secgroup007'', resource_group = Some ''Other''\<rparr>"]
  by (simp add: stub_def run_query_Some AZURE_OBJECT_CLASS_def)

text \<open>
  C9. When \<open>get\<close> returns, without raising, a value that is false (\<open>None\<close>, or an
  object whose truth value is false), \<open>get_item\<close> returns the empty list; and a
  non-empty list returned by \<open>get_item\<close> is the serialization of an item that \<open>get\<close>
  returned and that is true.
\<close>

theorem falsy_item_not_serialized:
  "(nsg_get c (resource_group self) (name self) = Inr v \<and>
    (v = None \<or> (\<exists>item. v = Some item \<and> \<not> truth c item)) \<longrightarrow>
      snd (get_item c self) = Inr []) \<and>
   (snd (get_item c self) = Inr (r # rs) \<longrightarrow>
      (\<exists>item. nsg_get c (resource_group self) (name self) = Inr (Some item) \<and> truth c item \<and>
              r = serialize_obj c item AZURE_OBJECT_CLASS \<and> rs = []))"
  by (auto simp add: snd_get_item split: sum.splits option.splits if_splits)

theorem falsy_item_not_serialized_witness:
  "nsg_get (stub (Inr (Some [])) (Inr []))
       (resource_group (init (stub (Inr (Some [])) (Inr []))))
       (name (init (stub (Inr (Some [])) (Inr []))))
     = Inr (Some []) \<and>
   \<not> truth (stub (Inr (Some [])) (Inr [])) [] \<and>
   snd (get_item (stub (Inr (Some [])) (Inr [])) (init (stub (Inr (Some [])) (Inr [])))) = Inr [] \<and>
   snd (get_item (stub (Inr None) (Inr [])) (init (stub (Inr None) (Inr [])))) = Inr []"
  using falsy_item_not_serialized
    [of "stub (Inr (Some [])) (Inr [])" "init (stub (Inr (Some [])) (Inr []))" "Some []"]
    falsy_item_not_serialized
    [of "stub (Inr None) (Inr [])" "init (stub (Inr None) (Inr []))" None]
  by (simp add: stub_def)

text \<open>
  C10. After a successful \<open>list\<close>, the results are the serialized items in the order
  of the response, one for each item: nothing is reordered, left out or merged, also
  when the response holds the same resource twice.
\<close>

theorem listing_keeps_order:
  assumes "nsg_list c (Some rg) = Inr response"
  shows "snd (run c (query None rg))
           = Inr \<lparr>changed = False, env_check_mode = check_mode c,
                  results = map (\<lambda>item. serialize_obj c item AZURE_OBJECT_CLASS) response\<rparr> \<and>
         snd (list_items c (self\<lparr>resource_group := Some rg\<rparr>))
           = Inr (map (\<lambda>item. serialize_obj c item AZURE_OBJECT_CLASS) response)"
  using assms by (simp add: run_query_None list_items_def append_items_map)

theorem listing_keeps_order_witness:
  "nsg_list (stub (Inr None) (Inr [''web'', ''db'', ''web''])) (Some ''Testing'')
     = Inr [''web'', ''db'', ''web''] \<and>
   snd (run (stub (Inr None) (Inr [''web'', ''db'', ''web''])) (query None ''Testing''))
     = Inr \<lparr>changed = False, env_check_mode = False,
            results = [(''NetworkSecurityGroup'', ''web''), (''NetworkSecurityGroup'', ''db''),
                       (''NetworkSecurityGroup'', ''web'')]\<rparr>"
  using listing_keeps_order
    [of "stub (Inr None) (Inr [''web'', ''db'', ''web''])" "''Testing''"
        "[''web'', ''db'', ''web'']"]
  by (simp add: stub_def AZURE_OBJECT_CLASS_def)

end
